theory Spec2Isabelle
  imports Main
begin

section \<open>Session state of the chat client (store/generalSlicer)\<close>

text \<open>
  The development embeds the Redux slice \<^verbatim>\<open>generalSlice\<close> (its initial state, its eight
  synchronous reducers and the pending / fulfilled / rejected cases of its eleven thunks),
  the error value every thunk hands to \<^verbatim>\<open>rejectWithValue\<close>, and the submit handler
  \<^verbatim>\<open>handleSendMessage\<close> of the chat area.

  JavaScript strings are modelled as \<^typ>\<open>string\<close>; a field the code tests for presence
  (\<^verbatim>\<open>payload.response\<close>, \<^verbatim>\<open>payload.results || []\<close>, \<^verbatim>\<open>inputElement?.value ?? ""\<close>) or that
  may hold \<^verbatim>\<open>null\<close> (\<^verbatim>\<open>currentConversationId\<close>) is an \<^typ>\<open>'a option\<close>. For the current
  conversation id, \<^term>\<open>None\<close> stands for \<^verbatim>\<open>null\<close> and for \<^verbatim>\<open>undefined\<close> alike: the code only
  negates the id and compares it with a string, and the two behave the same in both.
  Payloads of fulfilled events have the success shape of the backend contract.
\<close>

subsection \<open>JavaScript values held in the error slot\<close>

text \<open>
  The value a rejected thunk carries is whatever the backend sent as response body, or the
  message text of the transport error. Numbers are the integral ones.
\<close>

datatype jsvalue =
    JUndefined
  | JNull
  | JBool bool
  | JNum int
  | JStr string
  | JArr "jsvalue list"
  | JObj "(string \<times> jsvalue) list"

text \<open>Truthiness, as \<^verbatim>\<open>||\<close> tests it.\<close>

fun truthy :: "jsvalue \<Rightarrow> bool" where
  "truthy JUndefined = False"
| "truthy JNull = False"
| "truthy (JBool b) = b"
| "truthy (JNum n) = (n \<noteq> 0)"
| "truthy (JStr s) = (s \<noteq> [])"
| "truthy (JArr xs) = True"
| "truthy (JObj kvs) = True"

text \<open>
  The error caught around an axios call: \<^verbatim>\<open>error.response\<close> is absent when no response
  arrived, else it carries the body \<^verbatim>\<open>data\<close>; \<^verbatim>\<open>error.message\<close> is the transport text.
\<close>

record axios_error =
  response :: "jsvalue option"
  message :: string

text \<open>
  \<^verbatim>\<open>error.response?.data || error.message\<close>, the argument of \<^verbatim>\<open>rejectWithValue\<close> in every
  thunk of the slice.
\<close>

definition rejectValue :: "axios_error \<Rightarrow> jsvalue" where
  "rejectValue e =
     (let d = (case response e of None \<Rightarrow> JUndefined | Some v \<Rightarrow> v)
      in if truthy d then d else JStr (message e))"

subsection \<open>Data model\<close>

text \<open>
  A conversation record as the backend returns it: the list endpoint's records are read
  through \<^verbatim>\<open>id\<close> and \<^verbatim>\<open>title\<close>, the create endpoint's record through \<^verbatim>\<open>conversation_id\<close>.
  A field is \<^term>\<open>None\<close> where the record does not have it.
\<close>

record conversation =
  conv_id :: "string option"
  conv_conversation_id :: "string option"
  conv_title :: "string option"

record message =
  msg_role :: string
  msg_content :: string
  msg_id :: string

text \<open>One record of a fetched transcript, \<^verbatim>\<open>{role, text, id}\<close>.\<close>

record history_record =
  rec_role :: string
  rec_text :: string
  rec_id :: string

record topic_result =
  res_title :: string
  res_url :: string

record session_state =
  conversations :: "conversation list"
  currentConversationId :: "string option"
  messages :: "message list"
  documents :: "string list"
  selectedDocuments :: "string list"
  topicSearchResults :: "topic_result list"
  isLoading :: bool
  isSending :: bool
  isUploading :: bool
  isSearching :: bool
  error :: jsvalue

definition initialState :: session_state where
  "initialState =
     \<lparr> conversations = [],
       currentConversationId = None,
       messages = [],
       documents = [],
       selectedDocuments = [],
       topicSearchResults = [],
       isLoading = False,
       isSending = False,
       isUploading = False,
       isSearching = False,
       error = JNull \<rparr>"

subsection \<open>Actions\<close>

datatype thunk =
    CreateNewChat
  | FetchConversations
  | DeleteConversation
  | FetchConversationHistory
  | UploadFile
  | IngestUrl
  | SearchTopic
  | IngestTopic
  | FetchDocuments
  | SendMessage
  | SubmitFeedback

text \<open>
  The actions the slice reduces. A fulfilled event carries the payload its thunk returns;
  \<^verbatim>\<open>sendMessage.fulfilled\<close> also carries the reading of \<^verbatim>\<open>Date.now()\<close> that its reducer
  takes (milliseconds since the epoch). A rejected event carries the value given to
  \<^verbatim>\<open>rejectWithValue\<close>.
\<close>

datatype action =
    SetCurrentConversationId "string option"
  | ToggleSelectedDocument string
  | ClearSelectedDocuments
  | SetSelectedDocuments "string list"
  | ClearTopicSearchResults
  | ClearError
  | ClearMessages
  | AddLocalMessage message
  | Pending thunk
  | CreateNewChatFulfilled conversation
  | FetchConversationsFulfilled "conversation list"
  | DeleteConversationFulfilled string
  | FetchConversationHistoryFulfilled "history_record list"
  | UploadFileFulfilled "string list"
  | IngestUrlFulfilled
  | SearchTopicFulfilled "topic_result list option"
  | IngestTopicFulfilled
  | FetchDocumentsFulfilled "string list"
  | SendMessageFulfilled "string option" nat
  | SubmitFeedbackFulfilled
  | Rejected thunk jsvalue

subsection \<open>Array and string helpers of the runtime\<close>

text \<open>\<^verbatim>\<open>Array.prototype.indexOf\<close>: the first index holding the value, or \<open>-1\<close>.\<close>

fun indexOf :: "'a list \<Rightarrow> 'a \<Rightarrow> int" where
  "indexOf [] x = - 1"
| "indexOf (y # ys) x =
     (if y = x then 0
      else (let i = indexOf ys x in if i = - 1 then - 1 else i + 1))"

text \<open>\<^verbatim>\<open>xs.splice(i, 1)\<close>: the array without the element at index \<open>i\<close>.\<close>

definition splice1 :: "nat \<Rightarrow> 'a list \<Rightarrow> 'a list" where
  "splice1 i xs = take i xs @ drop (i + 1) xs"

text \<open>
  \<^verbatim>\<open>Array.from(new Set(xs))\<close>: a Set keeps its members in the order of their first
  insertion, and adding a member it already has changes nothing.
\<close>

definition set_add :: "'a list \<Rightarrow> 'a \<Rightarrow> 'a list" where
  "set_add acc x = (if x \<in> set acc then acc else acc @ [x])"

definition array_from_set :: "'a list \<Rightarrow> 'a list" where
  "array_from_set xs = foldl set_add [] xs"

text \<open>
  \<^verbatim>\<open>String.prototype.trim\<close> removes white space and line terminators from both ends. Of
  these, the code units a \<^typ>\<open>char\<close> can hold are TAB, LF, VT, FF, CR, SP and NBSP.
\<close>

definition isWhiteSpace :: "char \<Rightarrow> bool" where
  "isWhiteSpace c =
     (c \<in> set [CHR 0x09, CHR 0x0A, CHR 0x0B, CHR 0x0C, CHR 0x0D, CHR 0x20, CHR 0xA0])"

definition trim :: "string \<Rightarrow> string" where
  "trim s = rev (dropWhile isWhiteSpace (rev (dropWhile isWhiteSpace s)))"

text \<open>The decimal numeral of a clock reading, as a template literal renders it.\<close>

definition digit :: "nat \<Rightarrow> char" where
  "digit d = ''0123456789'' ! d"

fun decimal :: "nat \<Rightarrow> string" where
  "decimal n = (if n < 10 then [digit n] else decimal (n div 10) @ [digit (n mod 10)])"

declare decimal.simps [simp del]

subsection \<open>The reducer\<close>

fun generalReducer :: "session_state \<Rightarrow> action \<Rightarrow> session_state" where
  "generalReducer s (SetCurrentConversationId p) = s\<lparr>currentConversationId := p\<rparr>"
| "generalReducer s (ToggleSelectedDocument docName) =
     (let existingIndex = indexOf (selectedDocuments s) docName
      in if existingIndex \<noteq> - 1
         then s\<lparr>selectedDocuments := splice1 (nat existingIndex) (selectedDocuments s)\<rparr>
         else s\<lparr>selectedDocuments := selectedDocuments s @ [docName]\<rparr>)"
| "generalReducer s ClearSelectedDocuments = s\<lparr>selectedDocuments := []\<rparr>"
| "generalReducer s (SetSelectedDocuments p) = s\<lparr>selectedDocuments := array_from_set p\<rparr>"
| "generalReducer s ClearTopicSearchResults = s\<lparr>topicSearchResults := []\<rparr>"
| "generalReducer s ClearError = s\<lparr>error := JNull\<rparr>"
| "generalReducer s ClearMessages = s\<lparr>messages := []\<rparr>"
| "generalReducer s (AddLocalMessage m) = s\<lparr>messages := messages s @ [m]\<rparr>"

| "generalReducer s (Pending CreateNewChat) = s\<lparr>isLoading := True, error := JNull\<rparr>"
| "generalReducer s (CreateNewChatFulfilled p) =
     s\<lparr>isLoading := False,
       conversations := conversations s @ [p],
       currentConversationId := conv_conversation_id p,
       messages := [],
       documents := [],
       selectedDocuments := []\<rparr>"
| "generalReducer s (Rejected CreateNewChat p) = s\<lparr>isLoading := False, error := p\<rparr>"

| "generalReducer s (Pending FetchConversations) = s\<lparr>isLoading := True\<rparr>"
| "generalReducer s (FetchConversationsFulfilled p) =
     s\<lparr>isLoading := False, conversations := p\<rparr>"
| "generalReducer s (Rejected FetchConversations p) = s\<lparr>isLoading := False, error := p\<rparr>"

| "generalReducer s (Pending DeleteConversation) = s\<lparr>isLoading := True\<rparr>"
| "generalReducer s (DeleteConversationFulfilled p) =
     (let s1 = s\<lparr>isLoading := False,
                  conversations := filter (\<lambda>c. conv_id c \<noteq> Some p) (conversations s)\<rparr>
      in if currentConversationId s1 = Some p
         then s1\<lparr>currentConversationId := None,
                 messages := [],
                 documents := [],
                 selectedDocuments := []\<rparr>
         else s1)"
| "generalReducer s (Rejected DeleteConversation p) = s\<lparr>isLoading := False, error := p\<rparr>"

| "generalReducer s (Pending FetchConversationHistory) = s\<lparr>isLoading := True\<rparr>"
| "generalReducer s (FetchConversationHistoryFulfilled p) =
     s\<lparr>isLoading := False,
       messages :=
         map (\<lambda>m. \<lparr> msg_role = (if rec_role m = ''human'' then ''user'' else ''assistant''),
                    msg_content = rec_text m,
                    msg_id = rec_id m \<rparr>) p\<rparr>"
| "generalReducer s (Rejected FetchConversationHistory p) =
     s\<lparr>isLoading := False, error := p\<rparr>"

| "generalReducer s (Pending UploadFile) = s\<lparr>isUploading := True, error := JNull\<rparr>"
| "generalReducer s (UploadFileFulfilled p) = s\<lparr>isUploading := False, documents := p\<rparr>"
| "generalReducer s (Rejected UploadFile p) = s\<lparr>isUploading := False, error := p\<rparr>"

| "generalReducer s (Pending IngestUrl) = s\<lparr>isLoading := True, error := JNull\<rparr>"
| "generalReducer s IngestUrlFulfilled = s\<lparr>isLoading := False\<rparr>"
| "generalReducer s (Rejected IngestUrl p) = s\<lparr>isLoading := False, error := p\<rparr>"

| "generalReducer s (Pending SearchTopic) = s\<lparr>isSearching := True, error := JNull\<rparr>"
| "generalReducer s (SearchTopicFulfilled p) =
     s\<lparr>isSearching := False,
       topicSearchResults := (case p of Some results \<Rightarrow> results | None \<Rightarrow> [])\<rparr>"
| "generalReducer s (Rejected SearchTopic p) = s\<lparr>isSearching := False, error := p\<rparr>"

| "generalReducer s (Pending IngestTopic) = s\<lparr>isLoading := True, error := JNull\<rparr>"
| "generalReducer s IngestTopicFulfilled = s\<lparr>isLoading := False, topicSearchResults := []\<rparr>"
| "generalReducer s (Rejected IngestTopic p) = s\<lparr>isLoading := False, error := p\<rparr>"

| "generalReducer s (Pending FetchDocuments) = s\<lparr>isLoading := True\<rparr>"
| "generalReducer s (FetchDocumentsFulfilled p) = s\<lparr>isLoading := False, documents := p\<rparr>"
| "generalReducer s (Rejected FetchDocuments p) = s\<lparr>isLoading := False, error := p\<rparr>"

| "generalReducer s (Pending SendMessage) = s\<lparr>isSending := True, error := JNull\<rparr>"
| "generalReducer s (SendMessageFulfilled resp now) =
     (let s1 = s\<lparr>isSending := False\<rparr>
      in case resp of
           None \<Rightarrow> s1
         | Some r \<Rightarrow>
             if r \<noteq> []
             then s1\<lparr>messages := messages s1 @
                       [\<lparr> msg_role = ''assistant'',
                          msg_content = r,
                          msg_id = ''ai_'' @ decimal now \<rparr>]\<rparr>
             else s1)"
| "generalReducer s (Rejected SendMessage p) = s\<lparr>isSending := False, error := p\<rparr>"

| "generalReducer s (Pending SubmitFeedback) = s\<lparr>isLoading := True\<rparr>"
| "generalReducer s SubmitFeedbackFulfilled = s\<lparr>isLoading := False\<rparr>"
| "generalReducer s (Rejected SubmitFeedback p) = s\<lparr>isLoading := False, error := p\<rparr>"


subsection \<open>Sending a message (chat area)\<close>

text \<open>\<^verbatim>\<open>!v\<close> for a value that is \<^verbatim>\<open>null\<close> or a string: true for \<^verbatim>\<open>null\<close> and for the empty string.\<close>

definition falsy :: "string option \<Rightarrow> bool" where
  "falsy v = (case v of None \<Rightarrow> True | Some str \<Rightarrow> str = [])"

text \<open>
  The request \<^verbatim>\<open>sendMessage\<close> posts to \<^verbatim>\<open>/qa/conversations/{conversationId}\<close>, with its body
  \<^verbatim>\<open>{user_query, selected_documents}\<close>.
\<close>

record send_request =
  req_conversationId :: "string option"
  req_user_query :: string
  req_selected_documents :: "string list"

text \<open>
  \<^verbatim>\<open>handleSendMessage\<close>, from the value of the form's input element (\<^term>\<open>None\<close> when there
  is none) and the reading of \<^verbatim>\<open>Date.now()\<close>. It returns the state after its synchronous
  dispatches (\<^verbatim>\<open>addLocalMessage\<close>, then the \<^verbatim>\<open>pending\<close> event that dispatching the thunk
  emits) and the requests handed to the backend. The reply arrives later, as a
  \<^term>\<open>SendMessageFulfilled\<close> or a \<^term>\<open>Rejected SendMessage\<close> event. The handler reads
  \<open>currentConversationId\<close> and \<open>selectedDocuments\<close> from the state the component was
  rendered with, taken here to be the state the dispatches act on.
\<close>

definition handleSendMessage ::
    "session_state \<Rightarrow> string option \<Rightarrow> nat \<Rightarrow> session_state \<times> send_request list" where
  "handleSendMessage s inputValue now =
     (let userQuery = (case inputValue of Some v \<Rightarrow> v | None \<Rightarrow> []);
          hasSelectedDocuments = (length (selectedDocuments s) > 0)
      in if trim userQuery = [] \<or> falsy (currentConversationId s) \<or> \<not> hasSelectedDocuments
         then (s, [])
         else
           (let userMessage = \<lparr> msg_role = ''user'',
                                 msg_content = userQuery,
                                 msg_id = ''user_'' @ decimal now \<rparr>;
                s1 = generalReducer s (AddLocalMessage userMessage);
                s2 = generalReducer s1 (Pending SendMessage)
            in (s2, [\<lparr> req_conversationId = currentConversationId s,
                        req_user_query = userQuery,
                        req_selected_documents = selectedDocuments s \<rparr>])))"

subsection \<open>Lifecycle bookkeeping\<close>

text \<open>The flag a thunk's \<^verbatim>\<open>pending\<close> case raises and its \<^verbatim>\<open>rejected\<close> case lowers.\<close>

fun category_flag :: "thunk \<Rightarrow> session_state \<Rightarrow> bool" where
  "category_flag SendMessage s = isSending s"
| "category_flag UploadFile s = isUploading s"
| "category_flag SearchTopic s = isSearching s"
| "category_flag t s = isLoading s"

text \<open>The three lifecycle events of \<^verbatim>\<open>submitFeedback\<close>.\<close>

fun submitFeedback_event :: "action \<Rightarrow> bool" where
  "submitFeedback_event (Pending SubmitFeedback) = True"
| "submitFeedback_event SubmitFeedbackFulfilled = True"
| "submitFeedback_event (Rejected SubmitFeedback p) = True"
| "submitFeedback_event a = False"

text \<open>The states the store can be in: the initial one, and those the reducer yields.\<close>

inductive reachable :: "session_state \<Rightarrow> bool" where
  reachable_init: "reachable initialState"
| reachable_step: "reachable s \<Longrightarrow> reachable (generalReducer s a)"

text \<open>A state with a conversation open, two documents listed and one of them selected.\<close>

definition sampleState :: session_state where
  "sampleState =
     initialState
       \<lparr> conversations :=
           [\<lparr> conv_id = Some ''c1'', conv_conversation_id = None, conv_title = Some ''First'' \<rparr>,
            \<lparr> conv_id = Some ''c2'', conv_conversation_id = None, conv_title = Some ''Second'' \<rparr>],
         currentConversationId := Some ''c1'',
         messages := [\<lparr> msg_role = ''user'', msg_content = ''hello'', msg_id = ''m0'' \<rparr>],
         documents := [''a.pdf'', ''b.txt''],
         selectedDocuments := [''a.pdf''] \<rparr>"

section \<open>Properties\<close>

subsection \<open>Helper facts about the runtime functions\<close>

lemma indexOf_ge: "- 1 \<le> indexOf xs x"
  by (induction xs) (auto simp: Let_def)

lemma indexOf_absent: "x \<notin> set xs \<Longrightarrow> indexOf xs x = - 1"
  by (induction xs) (auto simp: Let_def)

lemma indexOf_present: "x \<in> set xs \<Longrightarrow> 0 \<le> indexOf xs x"
  using indexOf_ge [of _ x] by (induction xs) (auto simp: Let_def)

lemma splice1_indexOf:
  "x \<in> set xs \<Longrightarrow> splice1 (nat (indexOf xs x)) xs = remove1 x xs"
proof (induction xs)
  case Nil
  then show ?case by simp
next
  case (Cons y ys)
  show ?case
  proof (cases "y = x")
    case True
    then show ?thesis by (simp add: splice1_def)
  next
    case False
    with Cons.prems have mem: "x \<in> set ys" by simp
    then have nonneg: "0 \<le> indexOf ys x" by (rule indexOf_present)
    then have "nat (indexOf ys x + 1) = Suc (nat (indexOf ys x))" by simp
    with False nonneg Cons.IH [OF mem] show ?thesis
      by (auto simp: splice1_def Let_def)
  qed
qed

lemma toggle_selected:
  "selectedDocuments (generalReducer s (ToggleSelectedDocument d)) =
     (if d \<in> set (selectedDocuments s) then remove1 d (selectedDocuments s)
      else selectedDocuments s @ [d])"
  using indexOf_present [of d "selectedDocuments s"]
  by (auto simp: Let_def indexOf_absent splice1_indexOf)

lemma foldl_set_add_distinct:
  "distinct acc \<Longrightarrow> distinct (foldl set_add acc xs)"
  by (induction xs arbitrary: acc) (auto simp: set_add_def)

lemma foldl_set_add_set: "set (foldl set_add acc xs) = set acc \<union> set xs"
  by (induction xs arbitrary: acc) (auto simp: set_add_def)

lemma array_from_set_distinct: "distinct (array_from_set xs)"
  by (simp add: array_from_set_def foldl_set_add_distinct)

lemma array_from_set_set: "set (array_from_set xs) = set xs"
  by (simp add: array_from_set_def foldl_set_add_set)

lemma reducer_selected_cases:
  "selectedDocuments (generalReducer s a) = selectedDocuments s
   \<or> selectedDocuments (generalReducer s a) = []
   \<or> (\<exists>d. a = ToggleSelectedDocument d)
   \<or> (\<exists>p. a = SetSelectedDocuments p)"
proof (cases a)
  case (Pending t)
  then show ?thesis by (cases t) simp_all
next
  case (Rejected t p)
  then show ?thesis by (cases t) simp_all
next
  case (SendMessageFulfilled resp now)
  then show ?thesis by (simp add: Let_def split: option.splits)
qed (simp_all add: Let_def)

lemma reducer_keeps_distinct:
  "distinct (selectedDocuments s) \<Longrightarrow> distinct (selectedDocuments (generalReducer s a))"
proof -
  assume d: "distinct (selectedDocuments s)"
  consider "selectedDocuments (generalReducer s a) = selectedDocuments s"
    | "selectedDocuments (generalReducer s a) = []"
    | x where "a = ToggleSelectedDocument x"
    | p where "a = SetSelectedDocuments p"
    using reducer_selected_cases [of s a] by blast
  then show ?thesis
  proof cases
    case 1
    with d show ?thesis by simp
  next
    case 2
    then show ?thesis by simp
  next
    case 3
    with d show ?thesis by (simp only: toggle_selected) simp
  next
    case 4
    then show ?thesis by (simp add: array_from_set_distinct)
  qed
qed

lemma reachable_distinct: "reachable s \<Longrightarrow> distinct (selectedDocuments s)"
  by (induction rule: reachable.induct) (simp_all add: initialState_def reducer_keeps_distinct)


lemma toggle_twice_set:
  assumes "distinct (selectedDocuments s)"
  shows "set (selectedDocuments
               (generalReducer (generalReducer s (ToggleSelectedDocument d))
                  (ToggleSelectedDocument d))) =
         set (selectedDocuments s)"
proof (cases "d \<in> set (selectedDocuments s)")
  case True
  with assms have gone: "d \<notin> set (remove1 d (selectedDocuments s))"
    by simp
  from True have first: "selectedDocuments (generalReducer s (ToggleSelectedDocument d)) =
      remove1 d (selectedDocuments s)"
    by (simp only: toggle_selected) simp
  from gone first have "selectedDocuments
      (generalReducer (generalReducer s (ToggleSelectedDocument d)) (ToggleSelectedDocument d)) =
      remove1 d (selectedDocuments s) @ [d]"
    by (simp only: toggle_selected) simp
  with True assms show ?thesis
    by auto
next
  case False
  then have first: "selectedDocuments (generalReducer s (ToggleSelectedDocument d)) =
      selectedDocuments s @ [d]"
    by (simp only: toggle_selected) simp
  then have "selectedDocuments
      (generalReducer (generalReducer s (ToggleSelectedDocument d)) (ToggleSelectedDocument d)) =
      remove1 d (selectedDocuments s @ [d])"
    by (simp only: toggle_selected) simp
  with False show ?thesis
    by (simp add: remove1_append)
qed

text \<open>The decimal numeral determines the number.\<close>

lemma digit_inj: "a < 10 \<Longrightarrow> b < 10 \<Longrightarrow> digit a = digit b \<Longrightarrow> a = b"
proof -
  assume a: "a < 10" and b: "b < 10" and eq: "digit a = digit b"
  have "distinct ''0123456789''" by simp
  moreover from a have "a < length ''0123456789''" by simp
  moreover from b have "b < length ''0123456789''" by simp
  ultimately have "(''0123456789'' ! a = ''0123456789'' ! b) = (a = b)"
    by (rule nth_eq_iff_index_eq)
  with eq show "a = b" by (simp add: digit_def)
qed

lemma decimal_nonempty: "decimal n \<noteq> []"
  by (subst decimal.simps) simp

lemma decimal_inj: "decimal m = decimal n \<Longrightarrow> m = n"
proof (induction m arbitrary: n rule: decimal.induct)
  case (1 m)
  have dm: "decimal m = (if m < 10 then [digit m] else decimal (m div 10) @ [digit (m mod 10)])"
    by (rule decimal.simps)
  have dn: "decimal n = (if n < 10 then [digit n] else decimal (n div 10) @ [digit (n mod 10)])"
    by (rule decimal.simps)
  show ?case
  proof (cases "m < 10")
    case small_m: True
    show ?thesis
    proof (cases "n < 10")
      case True
      with small_m dm dn "1.prems" show ?thesis
        by (simp add: digit_inj)
    next
      case False
      with small_m dm dn "1.prems" decimal_nonempty [of "n div 10"] show ?thesis
        by simp
    qed
  next
    case big_m: False
    show ?thesis
    proof (cases "n < 10")
      case True
      with big_m dm dn "1.prems" decimal_nonempty [of "m div 10"] show ?thesis
        by simp
    next
      case False
      with big_m dm dn "1.prems"
      have parts: "decimal (m div 10) = decimal (n div 10)" "digit (m mod 10) = digit (n mod 10)"
        by simp_all
      from big_m parts(1) have q: "m div 10 = n div 10"
        by (rule "1.IH")
      from parts(2) have r: "m mod 10 = n mod 10"
        by (intro digit_inj) simp_all
      from q r show ?thesis
        by (metis div_mult_mod_eq)
    qed
  qed
qed

subsection \<open>Loading a transcript\<close>

text \<open>
  C1. A fulfilled \<^verbatim>\<open>fetchConversationHistory\<close> event replaces \<open>messages\<close> by the mapped
  transcript: one message per record, in record order, with role \<open>user\<close> for the role token
  \<open>human\<close> and \<open>assistant\<close> for every other token, the record's text as content and the
  record's id kept. The result is the same from every state: neither the old messages nor
  \<open>currentConversationId\<close> play a part.
\<close>

theorem loadHistory_fulfilled_replaces_messages:
  "length (messages (generalReducer s (FetchConversationHistoryFulfilled recs))) = length recs
   \<and> (\<forall>i < length recs.
         msg_role (messages (generalReducer s (FetchConversationHistoryFulfilled recs)) ! i) =
           (if rec_role (recs ! i) = ''human'' then ''user'' else ''assistant'')
         \<and> msg_content (messages (generalReducer s (FetchConversationHistoryFulfilled recs)) ! i) =
             rec_text (recs ! i)
         \<and> msg_id (messages (generalReducer s (FetchConversationHistoryFulfilled recs)) ! i) =
             rec_id (recs ! i))
   \<and> messages (generalReducer t (FetchConversationHistoryFulfilled recs)) =
       messages (generalReducer s (FetchConversationHistoryFulfilled recs))"
  by simp

theorem loadHistory_fulfilled_replaces_messages_witness:
  "messages
     (generalReducer (sampleState\<lparr>currentConversationId := Some ''B''\<rparr>)
        (FetchConversationHistoryFulfilled
           [\<lparr> rec_role = ''human'', rec_text = ''hi'', rec_id = ''m1'' \<rparr>,
            \<lparr> rec_role = ''ai'', rec_text = ''hello'', rec_id = ''m2'' \<rparr>])) =
   [\<lparr> msg_role = ''user'', msg_content = ''hi'', msg_id = ''m1'' \<rparr>,
    \<lparr> msg_role = ''assistant'', msg_content = ''hello'', msg_id = ''m2'' \<rparr>]"
proof -
  let ?recs = "[\<lparr> rec_role = ''human'', rec_text = ''hi'', rec_id = ''m1'' \<rparr>,
                \<lparr> rec_role = ''ai'', rec_text = ''hello'', rec_id = ''m2'' \<rparr>]"
  let ?s = "sampleState\<lparr>currentConversationId := Some ''B''\<rparr>"
  let ?ms = "messages (generalReducer ?s (FetchConversationHistoryFulfilled ?recs))"
  note h = loadHistory_fulfilled_replaces_messages [of ?s ?recs ?s]
  from h have len: "length ?ms = 2" by simp
  from h have at: "\<forall>i < 2.
      msg_role (?ms ! i) = (if rec_role (?recs ! i) = ''human'' then ''user'' else ''assistant'')
      \<and> msg_content (?ms ! i) = rec_text (?recs ! i)
      \<and> msg_id (?ms ! i) = rec_id (?recs ! i)"
    by simp
  from at have m0: "?ms ! 0 = \<lparr> msg_role = ''user'', msg_content = ''hi'', msg_id = ''m1'' \<rparr>"
    by simp
  from at have m1: "?ms ! 1 = \<lparr> msg_role = ''assistant'', msg_content = ''hello'', msg_id = ''m2'' \<rparr>"
    by simp
  from len m0 m1 show ?thesis
    by simp
qed

subsection \<open>Creating and deleting conversations\<close>

text \<open>
  C2. From every state, a fulfilled \<^verbatim>\<open>createNewChat\<close> event appends the returned conversation
  record to \<open>conversations\<close>, makes the record's \<^verbatim>\<open>conversation_id\<close> the current conversation
  id, and empties \<open>messages\<close>, \<open>documents\<close> and \<open>selectedDocuments\<close>.
\<close>

theorem createConversation_fulfilled_resets_scope:
  "conversations (generalReducer s (CreateNewChatFulfilled c)) = conversations s @ [c]
   \<and> currentConversationId (generalReducer s (CreateNewChatFulfilled c)) = conv_conversation_id c
   \<and> messages (generalReducer s (CreateNewChatFulfilled c)) = []
   \<and> documents (generalReducer s (CreateNewChatFulfilled c)) = []
   \<and> selectedDocuments (generalReducer s (CreateNewChatFulfilled c)) = []"
  by simp

theorem createConversation_fulfilled_resets_scope_witness:
  "map conv_conversation_id
     (conversations
        (generalReducer sampleState
           (CreateNewChatFulfilled
              \<lparr> conv_id = None, conv_conversation_id = Some ''c3'', conv_title = None \<rparr>))) =
     [None, None, Some ''c3'']
   \<and> currentConversationId
       (generalReducer sampleState
          (CreateNewChatFulfilled
             \<lparr> conv_id = None, conv_conversation_id = Some ''c3'', conv_title = None \<rparr>)) =
       Some ''c3''
   \<and> messages
       (generalReducer sampleState
          (CreateNewChatFulfilled
             \<lparr> conv_id = None, conv_conversation_id = Some ''c3'', conv_title = None \<rparr>)) = []"
  using createConversation_fulfilled_resets_scope
    [of sampleState "\<lparr> conv_id = None, conv_conversation_id = Some ''c3'', conv_title = None \<rparr>"]
  by (simp add: sampleState_def)

text \<open>
  C3. From every state and for every id, a fulfilled \<^verbatim>\<open>deleteConversation\<close> event keeps
  exactly the conversations whose id differs from the deleted one. When the deleted id is
  the current conversation id, the current id becomes \<^verbatim>\<open>null\<close> and \<open>messages\<close>,
  \<open>documents\<close>, \<open>selectedDocuments\<close> become empty; otherwise these four fields stay as they
  were.
\<close>

theorem deleteConversation_fulfilled_effect:
  "conversations (generalReducer s (DeleteConversationFulfilled cid)) =
     filter (\<lambda>c. conv_id c \<noteq> Some cid) (conversations s)
   \<and> (currentConversationId s = Some cid \<longrightarrow>
         currentConversationId (generalReducer s (DeleteConversationFulfilled cid)) = None
         \<and> messages (generalReducer s (DeleteConversationFulfilled cid)) = []
         \<and> documents (generalReducer s (DeleteConversationFulfilled cid)) = []
         \<and> selectedDocuments (generalReducer s (DeleteConversationFulfilled cid)) = [])
   \<and> (currentConversationId s \<noteq> Some cid \<longrightarrow>
         currentConversationId (generalReducer s (DeleteConversationFulfilled cid)) =
           currentConversationId s
         \<and> messages (generalReducer s (DeleteConversationFulfilled cid)) = messages s
         \<and> documents (generalReducer s (DeleteConversationFulfilled cid)) = documents s
         \<and> selectedDocuments (generalReducer s (DeleteConversationFulfilled cid)) =
             selectedDocuments s)"
  by (simp add: Let_def)

theorem deleteConversation_fulfilled_effect_witness:
  "map conv_id (conversations (generalReducer sampleState (DeleteConversationFulfilled ''c1''))) =
     [Some ''c2'']
   \<and> currentConversationId (generalReducer sampleState (DeleteConversationFulfilled ''c1'')) = None
   \<and> messages (generalReducer sampleState (DeleteConversationFulfilled ''c1'')) = []
   \<and> documents (generalReducer sampleState (DeleteConversationFulfilled ''c1'')) = []
   \<and> selectedDocuments (generalReducer sampleState (DeleteConversationFulfilled ''c1'')) = []
   \<and> map conv_id (conversations (generalReducer sampleState (DeleteConversationFulfilled ''c2''))) =
       [Some ''c1'']
   \<and> currentConversationId (generalReducer sampleState (DeleteConversationFulfilled ''c2'')) =
       Some ''c1''
   \<and> messages (generalReducer sampleState (DeleteConversationFulfilled ''c2'')) =
       messages sampleState
   \<and> documents (generalReducer sampleState (DeleteConversationFulfilled ''c2'')) =
       [''a.pdf'', ''b.txt'']
   \<and> selectedDocuments (generalReducer sampleState (DeleteConversationFulfilled ''c2'')) =
       [''a.pdf'']"
proof -
  have cur: "currentConversationId sampleState = Some ''c1''"
    by (simp add: sampleState_def)
  have other: "currentConversationId sampleState \<noteq> Some ''c2''"
    by (simp add: sampleState_def)
  have convs: "map conv_id (conversations sampleState) = [Some ''c1'', Some ''c2'']"
    by (simp add: sampleState_def)
  have docs: "documents sampleState = [''a.pdf'', ''b.txt'']"
      "selectedDocuments sampleState = [''a.pdf'']"
    by (simp_all add: sampleState_def)
  from deleteConversation_fulfilled_effect [of sampleState "''c1''"] cur
  have a: "currentConversationId (generalReducer sampleState (DeleteConversationFulfilled ''c1'')) = None
      \<and> messages (generalReducer sampleState (DeleteConversationFulfilled ''c1'')) = []
      \<and> documents (generalReducer sampleState (DeleteConversationFulfilled ''c1'')) = []
      \<and> selectedDocuments (generalReducer sampleState (DeleteConversationFulfilled ''c1'')) = []"
    by blast
  from deleteConversation_fulfilled_effect [of sampleState "''c2''"] other
  have b: "currentConversationId (generalReducer sampleState (DeleteConversationFulfilled ''c2'')) =
        currentConversationId sampleState
      \<and> messages (generalReducer sampleState (DeleteConversationFulfilled ''c2'')) =
          messages sampleState
      \<and> documents (generalReducer sampleState (DeleteConversationFulfilled ''c2'')) =
          documents sampleState
      \<and> selectedDocuments (generalReducer sampleState (DeleteConversationFulfilled ''c2'')) =
          selectedDocuments sampleState"
    by blast
  have c: "map conv_id (conversations (generalReducer sampleState (DeleteConversationFulfilled ''c1''))) =
        [Some ''c2'']"
      "map conv_id (conversations (generalReducer sampleState (DeleteConversationFulfilled ''c2''))) =
        [Some ''c1'']"
    by (simp_all add: sampleState_def)
  from a b c cur docs show ?thesis
    by simp
qed

subsection \<open>Sending a message\<close>

text \<open>
  C4. In a state whose current conversation id is \<^verbatim>\<open>null\<close>, or whose \<open>selectedDocuments\<close> is
  empty, or when the query is empty after trimming, the submit handler does nothing: it
  returns the state it was given (so no message is appended and \<open>error\<close> is not written) and
  hands no request to the backend.
\<close>

theorem send_gate_noop:
  assumes "currentConversationId s = None \<or> selectedDocuments s = []
           \<or> trim (case inputValue of Some v \<Rightarrow> v | None \<Rightarrow> []) = []"
  shows "handleSendMessage s inputValue now = (s, [])"
  using assms by (auto simp: handleSendMessage_def Let_def falsy_def)

theorem send_gate_noop_witness:
  "handleSendMessage (sampleState\<lparr>currentConversationId := None\<rparr>) (Some ''What is X?'') 1700000000000 =
     (sampleState\<lparr>currentConversationId := None\<rparr>, [])
   \<and> handleSendMessage (sampleState\<lparr>selectedDocuments := []\<rparr>) (Some ''What is X?'') 1700000000000 =
     (sampleState\<lparr>selectedDocuments := []\<rparr>, [])
   \<and> handleSendMessage sampleState (Some ''   '') 1700000000000 = (sampleState, [])
   \<and> handleSendMessage sampleState None 1700000000000 = (sampleState, [])"
proof -
  have a: "currentConversationId (sampleState\<lparr>currentConversationId := None\<rparr>) = None"
    by simp
  have b: "selectedDocuments (sampleState\<lparr>selectedDocuments := []\<rparr>) = []"
    by simp
  have c: "trim (case Some ''   '' of Some v \<Rightarrow> v | None \<Rightarrow> []) = []"
    by (simp add: trim_def isWhiteSpace_def)
  have d: "trim (case None of Some v \<Rightarrow> v | None \<Rightarrow> []) = []"
    by (simp add: trim_def)
  from a have 1: "handleSendMessage (sampleState\<lparr>currentConversationId := None\<rparr>) (Some ''What is X?'') 1700000000000 =
     (sampleState\<lparr>currentConversationId := None\<rparr>, [])"
    by (intro send_gate_noop disjI1)
  from b have 2: "handleSendMessage (sampleState\<lparr>selectedDocuments := []\<rparr>) (Some ''What is X?'') 1700000000000 =
     (sampleState\<lparr>selectedDocuments := []\<rparr>, [])"
    by (intro send_gate_noop disjI2 disjI1)
  from c have 3: "handleSendMessage sampleState (Some ''   '') 1700000000000 = (sampleState, [])"
    by (intro send_gate_noop disjI2)
  from d have 4: "handleSendMessage sampleState None 1700000000000 = (sampleState, [])"
    by (intro send_gate_noop disjI2)
  from 1 2 3 4 show ?thesis by blast
qed

text \<open>
  C5. For an admitted send (query not blank, a conversation open, a document selected) the
  handler appends the user message with the query text and issues one request; this is
  the state while the request is outstanding. When the reply is then reduced, a non-empty
  answer adds the assistant message after the user message and an empty or missing answer
  adds nothing; a failure adds nothing and leaves the user message in place. From any
  state, the fulfilled and the rejected case keep every message already there.
\<close>

theorem send_appends_user_then_assistant:
  assumes "trim q \<noteq> []" and "currentConversationId s = Some cid" and "cid \<noteq> []"
    and "selectedDocuments s \<noteq> []"
  shows
    "messages (fst (handleSendMessage s (Some q) now)) =
       messages s @ [\<lparr> msg_role = ''user'', msg_content = q, msg_id = ''user_'' @ decimal now \<rparr>]
     \<and> snd (handleSendMessage s (Some q) now) =
         [\<lparr> req_conversationId = Some cid, req_user_query = q,
            req_selected_documents = selectedDocuments s \<rparr>]
     \<and> (\<forall>r now'. messages (generalReducer (fst (handleSendMessage s (Some q) now))
                              (SendMessageFulfilled (Some r) now')) =
           (if r \<noteq> []
            then messages s @
                   [\<lparr> msg_role = ''user'', msg_content = q, msg_id = ''user_'' @ decimal now \<rparr>,
                    \<lparr> msg_role = ''assistant'', msg_content = r, msg_id = ''ai_'' @ decimal now' \<rparr>]
            else messages s @
                   [\<lparr> msg_role = ''user'', msg_content = q, msg_id = ''user_'' @ decimal now \<rparr>]))
     \<and> (\<forall>now'. messages (generalReducer (fst (handleSendMessage s (Some q) now))
                            (SendMessageFulfilled None now')) =
           messages s @ [\<lparr> msg_role = ''user'', msg_content = q, msg_id = ''user_'' @ decimal now \<rparr>])
     \<and> (\<forall>p. messages (generalReducer (fst (handleSendMessage s (Some q) now))
                          (Rejected SendMessage p)) =
           messages s @ [\<lparr> msg_role = ''user'', msg_content = q, msg_id = ''user_'' @ decimal now \<rparr>])
     \<and> (\<forall>t r now'. messages (generalReducer t (SendMessageFulfilled (Some r) now')) =
           (if r \<noteq> []
            then messages t @
                   [\<lparr> msg_role = ''assistant'', msg_content = r, msg_id = ''ai_'' @ decimal now' \<rparr>]
            else messages t))
     \<and> (\<forall>t now'. messages (generalReducer t (SendMessageFulfilled None now')) = messages t)
     \<and> (\<forall>t p. messages (generalReducer t (Rejected SendMessage p)) = messages t)"
  using assms by (simp add: handleSendMessage_def Let_def falsy_def)

theorem send_appends_user_then_assistant_witness:
  "messages (fst (handleSendMessage sampleState (Some ''What is X?'') 1700000000000)) =
     [\<lparr> msg_role = ''user'', msg_content = ''hello'', msg_id = ''m0'' \<rparr>,
      \<lparr> msg_role = ''user'', msg_content = ''What is X?'', msg_id = ''user_1700000000000'' \<rparr>]
   \<and> messages (generalReducer (fst (handleSendMessage sampleState (Some ''What is X?'') 1700000000000))
                 (SendMessageFulfilled (Some ''X is Y'') 1700000000123)) =
     [\<lparr> msg_role = ''user'', msg_content = ''hello'', msg_id = ''m0'' \<rparr>,
      \<lparr> msg_role = ''user'', msg_content = ''What is X?'', msg_id = ''user_1700000000000'' \<rparr>,
      \<lparr> msg_role = ''assistant'', msg_content = ''X is Y'', msg_id = ''ai_1700000000123'' \<rparr>]
   \<and> messages (generalReducer (fst (handleSendMessage sampleState (Some ''What is X?'') 1700000000000))
                 (Rejected SendMessage (JStr ''Network Error''))) =
     [\<lparr> msg_role = ''user'', msg_content = ''hello'', msg_id = ''m0'' \<rparr>,
      \<lparr> msg_role = ''user'', msg_content = ''What is X?'', msg_id = ''user_1700000000000'' \<rparr>]"
proof -
  have q: "trim ''What is X?'' \<noteq> []"
    by (simp add: trim_def isWhiteSpace_def)
  have c: "currentConversationId sampleState = Some ''c1''" "''c1'' \<noteq> []"
    by (simp_all add: sampleState_def)
  have d: "selectedDocuments sampleState \<noteq> []"
    by (simp add: sampleState_def)
  have m: "messages sampleState = [\<lparr> msg_role = ''user'', msg_content = ''hello'', msg_id = ''m0'' \<rparr>]"
    by (simp add: sampleState_def)
  have n: "decimal 1700000000000 = ''1700000000000''" "decimal 1700000000123 = ''1700000000123''"
    by (simp_all add: decimal.simps digit_def)
  note h = send_appends_user_then_assistant [OF q c d, of 1700000000000]
  note 1 = h [THEN conjunct1]
  note 2 = h [THEN conjunct2, THEN conjunct2, THEN conjunct1, rule_format,
      of "''X is Y''" 1700000000123]
  note 3 = h [THEN conjunct2, THEN conjunct2, THEN conjunct2, THEN conjunct2, THEN conjunct1,
      rule_format, of "JStr ''Network Error''"]
  from 1 2 3 show ?thesis
    by (simp only: m n) simp
qed

text \<open>
  C6 as stated does not hold. Two sends that read the same value from the clock give their
  user messages the same identifier: here a first send is answered and a second send
  follows, all at the reading 1700000000000, and both user messages carry the identifier
  \<open>user_1700000000000\<close>.
\<close>

theorem rapid_sends_share_identifier:
  "map msg_id
     (messages
        (fst (handleSendMessage
                (generalReducer
                   (fst (handleSendMessage (sampleState\<lparr>messages := []\<rparr>) (Some ''first'') 1700000000000))
                   (SendMessageFulfilled (Some ''ok'') 1700000000000))
                (Some ''second'') 1700000000000))) =
   [''user_1700000000000'', ''ai_1700000000000'', ''user_1700000000000'']"
  by (simp add: handleSendMessage_def Let_def falsy_def trim_def isWhiteSpace_def sampleState_def
        initialState_def decimal.simps digit_def)

text \<open>
  C6, amended. The identifier of an optimistic user message is \<open>user_\<close> followed by the
  decimal numeral of the clock reading of its send. So the identifiers of two admitted
  sends are distinct exactly when the two sends read different values from the clock.
\<close>

theorem send_identifiers_differ_iff_clock_differs:
  assumes "trim q \<noteq> []" and "currentConversationId s = Some cid" and "cid \<noteq> []"
    and "selectedDocuments s \<noteq> []"
    and "trim q' \<noteq> []" and "currentConversationId s' = Some cid'" and "cid' \<noteq> []"
    and "selectedDocuments s' \<noteq> []"
  shows
    "msg_id (last (messages (fst (handleSendMessage s (Some q) now)))) = ''user_'' @ decimal now
     \<and> msg_id (last (messages (fst (handleSendMessage s' (Some q') now')))) =
         ''user_'' @ decimal now'
     \<and> (msg_id (last (messages (fst (handleSendMessage s (Some q) now)))) \<noteq>
          msg_id (last (messages (fst (handleSendMessage s' (Some q') now'))))) = (now \<noteq> now')"
  using assms decimal_inj [of now now']
  by (auto simp: handleSendMessage_def Let_def falsy_def)

theorem send_identifiers_differ_iff_clock_differs_witness:
  "msg_id (last (messages (fst (handleSendMessage sampleState (Some ''first'') 1700000000000)))) =
     ''user_1700000000000''
   \<and> msg_id (last (messages (fst (handleSendMessage sampleState (Some ''second'') 1700000000001)))) =
       ''user_1700000000001''
   \<and> msg_id (last (messages (fst (handleSendMessage sampleState (Some ''first'') 1700000000000)))) \<noteq>
       msg_id (last (messages (fst (handleSendMessage sampleState (Some ''second'') 1700000000001))))"
proof -
  have q: "trim ''first'' \<noteq> []" "trim ''second'' \<noteq> []"
    by (simp_all add: trim_def isWhiteSpace_def)
  have c: "currentConversationId sampleState = Some ''c1''" "''c1'' \<noteq> []"
    by (simp_all add: sampleState_def)
  have d: "selectedDocuments sampleState \<noteq> []"
    by (simp add: sampleState_def)
  have n: "decimal 1700000000000 = ''1700000000000''" "decimal 1700000000001 = ''1700000000001''"
    by (simp_all add: decimal.simps digit_def)
  have clocks: "(1700000000000::nat) \<noteq> 1700000000001"
    by simp
  note h = send_identifiers_differ_iff_clock_differs
    [OF q(1) c d q(2) c d, of 1700000000000 1700000000001]
  from h [THEN conjunct1] n(1)
  have 1: "msg_id (last (messages (fst (handleSendMessage sampleState (Some ''first'') 1700000000000)))) =
      ''user_1700000000000''"
    by simp
  from h [THEN conjunct2, THEN conjunct1] n(2)
  have 2: "msg_id (last (messages (fst (handleSendMessage sampleState (Some ''second'') 1700000000001)))) =
      ''user_1700000000001''"
    by simp
  from h [THEN conjunct2, THEN conjunct2] clocks
  have 3: "msg_id (last (messages (fst (handleSendMessage sampleState (Some ''first'') 1700000000000)))) \<noteq>
      msg_id (last (messages (fst (handleSendMessage sampleState (Some ''second'') 1700000000001))))"
    by (simp only: simp_thms)
  from 1 2 3 show ?thesis
    by (intro conjI)
qed

subsection \<open>Rejected events\<close>

text \<open>
  C7. For every thunk, reducing its rejected event lowers the flag of the thunk's category
  and stores the event's payload in \<open>error\<close>, whatever \<open>error\<close> held before. The payload a
  failing thunk supplies is the response body when there is a response with a truthy body
  (a structured body, an object, always is), and the transport message text when there is
  no response or the body is falsy.
\<close>

theorem rejected_clears_flag_and_overwrites_error:
  "\<not> category_flag t (generalReducer s (Rejected t p))
   \<and> error (generalReducer s (Rejected t p)) = p
   \<and> (\<forall>d. response e = Some d \<and> truthy d \<longrightarrow>
         error (generalReducer s (Rejected t (rejectValue e))) = d)
   \<and> (\<forall>kvs. response e = Some (JObj kvs) \<longrightarrow>
         error (generalReducer s (Rejected t (rejectValue e))) = JObj kvs)
   \<and> (response e = None \<longrightarrow>
         error (generalReducer s (Rejected t (rejectValue e))) = JStr (message e))
   \<and> (\<forall>d. response e = Some d \<and> \<not> truthy d \<longrightarrow>
         error (generalReducer s (Rejected t (rejectValue e))) = JStr (message e))"
  by (cases t) (simp_all add: rejectValue_def)

theorem rejected_clears_flag_and_overwrites_error_witness:
  "\<not> isSending (generalReducer (sampleState\<lparr>isSending := True, error := JStr ''old upload failure''\<rparr>)
                   (Rejected SendMessage
                      (rejectValue \<lparr> response = Some (JObj [(''detail'', JStr ''Conversation not found'')]),
                                     message = ''Request failed with status code 404'' \<rparr>)))
   \<and> error (generalReducer (sampleState\<lparr>isSending := True, error := JStr ''old upload failure''\<rparr>)
              (Rejected SendMessage
                 (rejectValue \<lparr> response = Some (JObj [(''detail'', JStr ''Conversation not found'')]),
                                message = ''Request failed with status code 404'' \<rparr>))) =
       JObj [(''detail'', JStr ''Conversation not found'')]
   \<and> error (generalReducer (sampleState\<lparr>isLoading := True, error := JStr ''old upload failure''\<rparr>)
              (Rejected FetchDocuments (rejectValue \<lparr> response = None, message = ''Network Error'' \<rparr>))) =
       JStr ''Network Error''"
proof -
  let ?e = "\<lparr> response = Some (JObj [(''detail'', JStr ''Conversation not found'')]),
              message = ''Request failed with status code 404'' \<rparr>"
  let ?n = "\<lparr> response = None, message = ''Network Error'' \<rparr>"
  let ?s = "sampleState\<lparr>isSending := True, error := JStr ''old upload failure''\<rparr>"
  let ?u = "sampleState\<lparr>isLoading := True, error := JStr ''old upload failure''\<rparr>"
  have r: "response ?e = Some (JObj [(''detail'', JStr ''Conversation not found'')])"
    by simp
  have n: "response ?n = None"
    by simp
  note h = rejected_clears_flag_and_overwrites_error [of SendMessage ?s "rejectValue ?e" ?e]
  note k = rejected_clears_flag_and_overwrites_error [of FetchDocuments ?u "rejectValue ?n" ?n]
  from h have 1: "\<not> isSending (generalReducer ?s (Rejected SendMessage (rejectValue ?e)))"
    by simp
  from h r have 2: "error (generalReducer ?s (Rejected SendMessage (rejectValue ?e))) =
      JObj [(''detail'', JStr ''Conversation not found'')]"
    by simp
  from k n have 3: "error (generalReducer ?u (Rejected FetchDocuments (rejectValue ?n))) =
      JStr ''Network Error''"
    by simp
  from 1 2 3 show ?thesis
    by simp
qed

subsection \<open>Feedback\<close>

text \<open>
  C8 as stated does not hold: the pending event of \<^verbatim>\<open>submitFeedback\<close> raises \<open>isLoading\<close>, and
  its rejected event writes \<open>error\<close>.
\<close>

theorem submitFeedback_changes_state_counterexample:
  "isLoading (generalReducer initialState (Pending SubmitFeedback)) \<noteq> isLoading initialState
   \<and> error (generalReducer initialState (Rejected SubmitFeedback (JStr ''Network Error''))) \<noteq>
       error initialState"
  by (simp add: initialState_def)

text \<open>
  C8, amended. Reducing a lifecycle event of \<^verbatim>\<open>submitFeedback\<close> leaves \<open>conversations\<close>,
  \<open>currentConversationId\<close>, \<open>messages\<close>, \<open>documents\<close>, \<open>selectedDocuments\<close>,
  \<open>topicSearchResults\<close>, \<open>isSending\<close>, \<open>isUploading\<close> and \<open>isSearching\<close> unchanged. It writes
  \<open>isLoading\<close> (true on pending, false on fulfilled and on rejected) and, on rejected,
  stores the payload in \<open>error\<close>.
\<close>

theorem submitFeedback_frame:
  assumes "submitFeedback_event a"
  shows
    "conversations (generalReducer s a) = conversations s
     \<and> currentConversationId (generalReducer s a) = currentConversationId s
     \<and> messages (generalReducer s a) = messages s
     \<and> documents (generalReducer s a) = documents s
     \<and> selectedDocuments (generalReducer s a) = selectedDocuments s
     \<and> topicSearchResults (generalReducer s a) = topicSearchResults s
     \<and> isSending (generalReducer s a) = isSending s
     \<and> isUploading (generalReducer s a) = isUploading s
     \<and> isSearching (generalReducer s a) = isSearching s
     \<and> isLoading (generalReducer s a) = (a = Pending SubmitFeedback)
     \<and> error (generalReducer s a) = (case a of Rejected t p \<Rightarrow> p | _ \<Rightarrow> error s)"
  using assms by (cases a rule: submitFeedback_event.cases) simp_all

theorem submitFeedback_frame_witness:
  "messages (generalReducer sampleState (Pending SubmitFeedback)) = messages sampleState
   \<and> isLoading (generalReducer sampleState (Pending SubmitFeedback))
   \<and> messages (generalReducer sampleState SubmitFeedbackFulfilled) = messages sampleState
   \<and> \<not> isLoading (generalReducer sampleState SubmitFeedbackFulfilled)
   \<and> messages (generalReducer sampleState (Rejected SubmitFeedback (JStr ''Network Error''))) =
       messages sampleState
   \<and> error (generalReducer sampleState (Rejected SubmitFeedback (JStr ''Network Error''))) =
       JStr ''Network Error''"
proof -
  have a: "submitFeedback_event (Pending SubmitFeedback)"
    and b: "submitFeedback_event SubmitFeedbackFulfilled"
    and c: "submitFeedback_event (Rejected SubmitFeedback (JStr ''Network Error''))"
    by simp_all
  from submitFeedback_frame [OF a, of sampleState]
       submitFeedback_frame [OF b, of sampleState]
       submitFeedback_frame [OF c, of sampleState]
  show ?thesis by simp
qed

subsection \<open>Document selection\<close>

text \<open>
  C9. In every state of the store, toggling the same document twice gives back the
  selection it started from, as a set of identifiers.
\<close>

theorem toggle_twice_roundtrip:
  assumes "reachable s"
  shows "set (selectedDocuments
               (generalReducer (generalReducer s (ToggleSelectedDocument d))
                  (ToggleSelectedDocument d))) =
         set (selectedDocuments s)"
  using assms by (intro toggle_twice_set reachable_distinct)

theorem toggle_twice_roundtrip_witness:
  "reachable (generalReducer (generalReducer initialState (ToggleSelectedDocument ''a.pdf''))
                (ToggleSelectedDocument ''b.txt''))
   \<and> selectedDocuments
       (generalReducer (generalReducer initialState (ToggleSelectedDocument ''a.pdf''))
          (ToggleSelectedDocument ''b.txt'')) = [''a.pdf'', ''b.txt'']
   \<and> selectedDocuments
       (generalReducer
          (generalReducer
             (generalReducer (generalReducer initialState (ToggleSelectedDocument ''a.pdf''))
                (ToggleSelectedDocument ''b.txt''))
             (ToggleSelectedDocument ''a.pdf''))
          (ToggleSelectedDocument ''a.pdf'')) = [''b.txt'', ''a.pdf'']
   \<and> set (selectedDocuments
            (generalReducer
               (generalReducer
                  (generalReducer (generalReducer initialState (ToggleSelectedDocument ''a.pdf''))
                     (ToggleSelectedDocument ''b.txt''))
                  (ToggleSelectedDocument ''a.pdf''))
               (ToggleSelectedDocument ''a.pdf''))) =
       set (selectedDocuments
              (generalReducer (generalReducer initialState (ToggleSelectedDocument ''a.pdf''))
                 (ToggleSelectedDocument ''b.txt'')))"
proof -
  let ?s = "generalReducer (generalReducer initialState (ToggleSelectedDocument ''a.pdf''))
              (ToggleSelectedDocument ''b.txt'')"
  have r: "reachable ?s"
    by (intro reachable_step reachable_init)
  have v: "selectedDocuments ?s = [''a.pdf'', ''b.txt'']"
    by (simp add: initialState_def Let_def splice1_def)
  have w: "selectedDocuments
       (generalReducer (generalReducer ?s (ToggleSelectedDocument ''a.pdf''))
          (ToggleSelectedDocument ''a.pdf'')) = [''b.txt'', ''a.pdf'']"
    by (simp add: initialState_def Let_def splice1_def)
  from r v w toggle_twice_roundtrip [OF r, of "''a.pdf''"] show ?thesis
    by blast
qed

text \<open>
  C10. \<open>selectedDocuments\<close> never holds an identifier twice: this is so in the initial state,
  every action preserves it, and so it holds in every state of the store. Toggling appends
  an identifier only when it is absent and otherwise removes it, \<^verbatim>\<open>setSelectedDocuments\<close>
  stores its payload without repetitions, and every other action leaves the field as it is
  or empties it.
\<close>

theorem selectedDocuments_never_duplicated:
  "distinct (selectedDocuments initialState)
   \<and> (\<forall>s a. distinct (selectedDocuments s) \<longrightarrow>
         distinct (selectedDocuments (generalReducer s a)))
   \<and> (\<forall>s. reachable s \<longrightarrow> distinct (selectedDocuments s))
   \<and> (\<forall>s d. d \<notin> set (selectedDocuments s) \<longrightarrow>
         selectedDocuments (generalReducer s (ToggleSelectedDocument d)) =
           selectedDocuments s @ [d])
   \<and> (\<forall>s d. d \<in> set (selectedDocuments s) \<longrightarrow>
         selectedDocuments (generalReducer s (ToggleSelectedDocument d)) =
           remove1 d (selectedDocuments s))
   \<and> (\<forall>s p. distinct (selectedDocuments (generalReducer s (SetSelectedDocuments p)))
         \<and> set (selectedDocuments (generalReducer s (SetSelectedDocuments p))) = set p)
   \<and> (\<forall>s a. (\<forall>d. a \<noteq> ToggleSelectedDocument d) \<and> (\<forall>p. a \<noteq> SetSelectedDocuments p) \<longrightarrow>
         selectedDocuments (generalReducer s a) = selectedDocuments s
         \<or> selectedDocuments (generalReducer s a) = [])"
proof (intro conjI allI impI)
  show "distinct (selectedDocuments initialState)"
    by (simp add: initialState_def)
next
  fix s :: session_state and a
  assume "distinct (selectedDocuments s)"
  then show "distinct (selectedDocuments (generalReducer s a))"
    by (rule reducer_keeps_distinct)
next
  fix s :: session_state
  assume "reachable s"
  then show "distinct (selectedDocuments s)"
    by (rule reachable_distinct)
next
  fix s :: session_state and d
  assume "d \<notin> set (selectedDocuments s)"
  then show "selectedDocuments (generalReducer s (ToggleSelectedDocument d)) =
      selectedDocuments s @ [d]"
    by (simp only: toggle_selected) simp
next
  fix s :: session_state and d
  assume "d \<in> set (selectedDocuments s)"
  then show "selectedDocuments (generalReducer s (ToggleSelectedDocument d)) =
      remove1 d (selectedDocuments s)"
    by (simp only: toggle_selected) simp
next
  fix s :: session_state and p
  show "distinct (selectedDocuments (generalReducer s (SetSelectedDocuments p)))"
    by (simp add: array_from_set_distinct)
next
  fix s :: session_state and p
  show "set (selectedDocuments (generalReducer s (SetSelectedDocuments p))) = set p"
    by (simp add: array_from_set_set)
next
  fix s :: session_state and a
  assume "(\<forall>d. a \<noteq> ToggleSelectedDocument d) \<and> (\<forall>p. a \<noteq> SetSelectedDocuments p)"
  with reducer_selected_cases [of s a]
  show "selectedDocuments (generalReducer s a) = selectedDocuments s
      \<or> selectedDocuments (generalReducer s a) = []"
    by blast
qed

theorem selectedDocuments_never_duplicated_witness:
  "distinct (selectedDocuments (generalReducer sampleState (ToggleSelectedDocument ''b.txt'')))
   \<and> selectedDocuments (generalReducer sampleState (ToggleSelectedDocument ''b.txt'')) =
       [''a.pdf'', ''b.txt'']
   \<and> selectedDocuments (generalReducer sampleState (ToggleSelectedDocument ''a.pdf'')) = []
   \<and> selectedDocuments
       (generalReducer sampleState (SetSelectedDocuments [''b.txt'', ''a.pdf'', ''b.txt''])) =
       [''b.txt'', ''a.pdf'']
   \<and> selectedDocuments (generalReducer sampleState (DeleteConversationFulfilled ''c1'')) = []"
proof -
  note h = selectedDocuments_never_duplicated
  have sel: "selectedDocuments sampleState = [''a.pdf'']"
    by (simp add: sampleState_def)
  then have d: "distinct (selectedDocuments sampleState)"
    and out: "''b.txt'' \<notin> set (selectedDocuments sampleState)"
    and inn: "''a.pdf'' \<in> set (selectedDocuments sampleState)"
    by simp_all
  from h d have 1: "distinct (selectedDocuments (generalReducer sampleState (ToggleSelectedDocument ''b.txt'')))"
    by blast
  from h out have "selectedDocuments (generalReducer sampleState (ToggleSelectedDocument ''b.txt'')) =
      selectedDocuments sampleState @ [''b.txt'']"
    by blast
  with sel have 2: "selectedDocuments (generalReducer sampleState (ToggleSelectedDocument ''b.txt'')) =
      [''a.pdf'', ''b.txt'']"
    by simp
  from h inn have "selectedDocuments (generalReducer sampleState (ToggleSelectedDocument ''a.pdf'')) =
      remove1 ''a.pdf'' (selectedDocuments sampleState)"
    by blast
  with sel have 3: "selectedDocuments (generalReducer sampleState (ToggleSelectedDocument ''a.pdf'')) = []"
    by simp
  have 4: "selectedDocuments
       (generalReducer sampleState (SetSelectedDocuments [''b.txt'', ''a.pdf'', ''b.txt''])) =
       [''b.txt'', ''a.pdf'']"
    by (simp add: array_from_set_def set_add_def)
  have 5: "selectedDocuments (generalReducer sampleState (DeleteConversationFulfilled ''c1'')) = []"
    by (simp add: sampleState_def Let_def)
  from 1 2 3 4 5 show ?thesis
    by blast
qed

end
